theory Spec2Isabelle
  imports Complex_Main
begin

section \<open>Scene timeline compositor and export multiplexer\<close>

text \<open>
  A shallow embedding of \<^verbatim>\<open>src/services/videoExporter.ts\<close> (\<^verbatim>\<open>exportVideo\<close>,
  \<^verbatim>\<open>exportAudioOnly\<close>) and of the timeline and scrubber of the \<^verbatim>\<open>Player\<close> component.

  JavaScript numbers are modelled as \<^typ>\<open>real\<close>: comparison, \<^verbatim>\<open>Math.max\<close> and the
  truthiness test of \<^verbatim>\<open>||\<close> are exact on them, and sums are taken without rounding.
  \<^verbatim>\<open>NaN\<close> and the infinities are outside the model. An optional field
  (\<^verbatim>\<open>manualDuration?: number\<close>) is an \<^typ>\<open>real option\<close>, with \<^const>\<open>None\<close> for
  \<^verbatim>\<open>undefined\<close>.
\<close>

subsection \<open>Data model (\<^verbatim>\<open>types.ts\<close>)\<close>

datatype ImageAspect = SixteenNine | NineSixteen | OneOne

datatype ExportFormat = Video720p | Video1080p | Video2K | Video4K | AudioOnly

datatype SceneStatus =
  Status_pending | Status_generating_image | Status_generating_audio | Status_ready | Status_error

text \<open>
  The interface \<^verbatim>\<open>Scene\<close>. The fields \<^verbatim>\<open>id\<close> and \<^verbatim>\<open>error\<close> carry the prefix
  \<^verbatim>\<open>scene_\<close> because \<open>id\<close> is the identity function of HOL.
\<close>

record Scene =
  scene_id :: string
  sequence :: int
  scriptText :: string
  visualPrompt :: string
  estimatedDuration :: real
  manualDuration :: "real option"
  imageUrl :: "string option"
  audioUrl :: "string option"
  audioDuration :: "real option"
  status :: SceneStatus
  scene_error :: "string option"

subsection \<open>The operator \<^verbatim>\<open>||\<close> on numbers and strings\<close>

text \<open>
  \<^verbatim>\<open>a || b\<close> is \<^verbatim>\<open>a\<close> when \<^verbatim>\<open>a\<close> is truthy and \<^verbatim>\<open>b\<close> otherwise. A number is falsy
  when it is \<^verbatim>\<open>undefined\<close> or \<^verbatim>\<open>0\<close>; a string is falsy when it is \<^verbatim>\<open>undefined\<close>
  or empty. A chain \<^verbatim>\<open>a || b || c\<close> is the first truthy operand, or the last one; it is
  written \<open>orElse a (orElse b c)\<close>, which has the same value as the grouping
  \<^verbatim>\<open>(a || b) || c\<close> of JavaScript.
\<close>

fun truthy :: "real option \<Rightarrow> bool" where
  "truthy None = False"
| "truthy (Some x) = (x \<noteq> 0)"

fun orElse :: "real option \<Rightarrow> real \<Rightarrow> real" where
  "orElse None b = b"
| "orElse (Some a) b = (if a \<noteq> 0 then a else b)"


subsection \<open>Duration resolution\<close>

text \<open>
  \<^verbatim>\<open>exportVideo\<close>, line 89:
  \<^verbatim>\<open>Math.max(audioBuffer?.duration || 0, scene.manualDuration || scene.estimatedDuration || 5)\<close>.
  The first argument is the duration of the decoded audio buffer, \<^const>\<open>None\<close> when the
  scene has no buffer.
\<close>

definition computeFinalDuration :: "real option \<Rightarrow> Scene \<Rightarrow> real" where
  "computeFinalDuration bufferDuration scene =
     max (orElse bufferDuration 0)
         (orElse (manualDuration scene) (orElse (Some (estimatedDuration scene)) 5))"

text \<open>\<^verbatim>\<open>exportAudioOnly\<close>, line 282: the same expression, written a second time.\<close>

definition sceneDuration :: "real option \<Rightarrow> Scene \<Rightarrow> real" where
  "sceneDuration bufferDuration scene =
     max (orElse bufferDuration 0)
         (orElse (manualDuration scene) (orElse (Some (estimatedDuration scene)) 5))"


text \<open>
  The formula of the specification, for comparison:
  \<^verbatim>\<open>max(manualDuration ?? 0, resolvedAudioDuration ?? 0, estimatedDuration ?? 0, floor)\<close>.
\<close>

definition specFinalDuration :: "real \<Rightarrow> real option \<Rightarrow> Scene \<Rightarrow> real" where
  "specFinalDuration floorSecs bufferDuration scene =
     max (max (case manualDuration scene of None \<Rightarrow> 0 | Some m \<Rightarrow> m)
              (case bufferDuration of None \<Rightarrow> 0 | Some a \<Rightarrow> a))
         (max (estimatedDuration scene) floorSecs)"

subsection \<open>The runtime the exporter talks to\<close>

text \<open>
  What the browser answers is a parameter of the model:
  \<^item> \<open>getContext\<close>: whether \<^verbatim>\<open>canvas.getContext('2d')\<close> returns a context;
  \<^item> \<open>imageEvent\<close>: for an image URL, whether \<^verbatim>\<open>onload\<close> fires, or \<^verbatim>\<open>onerror\<close>, and then
    at which position among the events of the page;
  \<^item> \<open>decodeAudioData\<close>: for an audio URL, the duration of the decoded buffer, or
    \<^const>\<open>None\<close> when \<^verbatim>\<open>fetch\<close>, \<^verbatim>\<open>arrayBuffer\<close> or \<^verbatim>\<open>decodeAudioData\<close> throws;
  \<^item> \<open>isTypeSupported\<close>: \<^verbatim>\<open>MediaRecorder.isTypeSupported\<close>;
  \<^item> \<open>currentTime\<close>: the successive readings of \<^verbatim>\<open>audioCtx.currentTime\<close>;
  \<^item> \<open>dataavailable\<close>: the sizes of the chunks the recorder delivers.
\<close>

datatype ImageEvent = Onload | Onerror nat

record Runtime =
  getContext :: bool
  imageEvent :: "string \<Rightarrow> ImageEvent"
  decodeAudioData :: "string \<Rightarrow> real option"
  isTypeSupported :: "string \<Rightarrow> bool"
  currentTime :: "real list"
  dataavailable :: "nat list"

text \<open>
  The errors the two export functions raise, by their messages:
  \<^verbatim>\<open>"Could not create canvas context"\<close>, \<^verbatim>\<open>`Failed to load image for scene ${scene.sequence}`\<close>,
  \<^verbatim>\<open>"No image URL"\<close>, \<^verbatim>\<open>"Recording failed: Output file is empty."\<close> and
  \<^verbatim>\<open>"Audio export failed: Empty file"\<close>.
\<close>

datatype ExportError =
    CanvasContextError
  | ImageLoadFailed int
  | NoImageUrl
  | OutputFileEmpty
  | AudioFileEmpty

text \<open>
  A promise is resolved, rejected, or not settled: the last is the value of an export
  whose loop is still running when the readings of the clock end.
\<close>

datatype 'a Promise = Resolved 'a | Rejected ExportError | Unsettled

subsection \<open>Asset preload (\<^verbatim>\<open>exportVideo\<close>, lines 64 to 92)\<close>

text \<open>
  The object \<^verbatim>\<open>{ ...scene, img, audioBuffer, finalDuration }\<close>. The copied fields of
  the scene are kept as one field; the image is named by its URL and the audio buffer by
  its duration.
\<close>

record LoadedScene =
  sceneOf :: Scene
  img :: string
  audioBuffer :: "real option"
  finalDuration :: real

text \<open>
  The image promise rejects at once, at position 0, when the scene has no image URL;
  otherwise it resolves when \<^verbatim>\<open>onload\<close> fires and rejects when \<^verbatim>\<open>onerror\<close> fires, at a
  position after that of the event. An image for which neither event fires is outside
  the model.
\<close>

definition loadImage :: "Runtime \<Rightarrow> Scene \<Rightarrow> (nat \<times> ExportError) + string" where
  "loadImage rt scene =
     (case imageUrl scene of
        None \<Rightarrow> Inl (0, NoImageUrl)
      | Some url \<Rightarrow>
          if url = [] then Inl (0, NoImageUrl)
          else (case imageEvent rt url of
                  Onload \<Rightarrow> Inr url
                | Onerror t \<Rightarrow> Inl (Suc t, ImageLoadFailed (sequence scene))))"

text \<open>The \<^verbatim>\<open>try\<close>/\<^verbatim>\<open>catch\<close> around the audio: a failure leaves \<^verbatim>\<open>audioBuffer\<close> null.\<close>

definition loadAudio :: "Runtime \<Rightarrow> Scene \<Rightarrow> real option" where
  "loadAudio rt scene =
     (case audioUrl scene of
        None \<Rightarrow> None
      | Some url \<Rightarrow> if url = [] then None else decodeAudioData rt url)"

definition loadScene :: "Runtime \<Rightarrow> Scene \<Rightarrow> (nat \<times> ExportError) + LoadedScene" where
  "loadScene rt scene =
     (case loadImage rt scene of
        Inl e \<Rightarrow> Inl e
      | Inr loadedImg \<Rightarrow>
          let buffer = loadAudio rt scene
          in Inr \<lparr>sceneOf = scene, img = loadedImg, audioBuffer = buffer,
                  finalDuration = computeFinalDuration buffer scene\<rparr>)"

text \<open>
  \<^verbatim>\<open>Promise.all\<close>: the list of the values when every promise is fulfilled, and otherwise
  the reason of the rejection that comes first in time (of two at the same position, the
  one of the earlier promise).
\<close>

fun rejections :: "('e + 'a) list \<Rightarrow> 'e list" where
  "rejections [] = []"
| "rejections (Inl e # ps) = e # rejections ps"
| "rejections (Inr a # ps) = rejections ps"

fun fulfilled :: "('e + 'a) list \<Rightarrow> 'a list" where
  "fulfilled [] = []"
| "fulfilled (Inl e # ps) = fulfilled ps"
| "fulfilled (Inr a # ps) = a # fulfilled ps"

fun earliest :: "nat \<times> 'e \<Rightarrow> (nat \<times> 'e) list \<Rightarrow> nat \<times> 'e" where
  "earliest r [] = r"
| "earliest r (x # xs) = earliest (if fst x < fst r then x else r) xs"

definition promiseAll :: "((nat \<times> 'e) + 'a) list \<Rightarrow> 'e + 'a list" where
  "promiseAll ps =
     (case rejections ps of
        [] \<Rightarrow> Inr (fulfilled ps)
      | r # rs \<Rightarrow> Inl (snd (earliest r rs)))"

definition preload :: "Runtime \<Rightarrow> Scene list \<Rightarrow> ExportError + LoadedScene list" where
  "preload rt scenes = promiseAll (map (loadScene rt) scenes)"

subsection \<open>Timeline (\<^verbatim>\<open>exportVideo\<close>, lines 95 to 100)\<close>

record TimelineScene =
  loaded :: LoadedScene
  startTime :: real
  endTime :: real

text \<open>
  The \<^verbatim>\<open>map\<close> over the loaded scenes with the mutable \<^verbatim>\<open>totalDuration\<close>: the first
  argument is its value before the scene, and the second component of the result its
  value after the last one.
\<close>

fun calculateTimeline :: "real \<Rightarrow> LoadedScene list \<Rightarrow> TimelineScene list \<times> real" where
  "calculateTimeline totalDuration [] = ([], totalDuration)"
| "calculateTimeline totalDuration (s # ss) =
     (case calculateTimeline (totalDuration + finalDuration s) ss of
        (entries, totalAfter) \<Rightarrow>
          (\<lparr>loaded = s, startTime = totalDuration,
            endTime = totalDuration + finalDuration s\<rparr> # entries, totalAfter))"

definition timelineScenes :: "LoadedScene list \<Rightarrow> TimelineScene list" where
  "timelineScenes ls = fst (calculateTimeline 0 ls)"

definition totalDuration :: "LoadedScene list \<Rightarrow> real" where
  "totalDuration ls = snd (calculateTimeline 0 ls)"

subsection \<open>Codec negotiation (\<^verbatim>\<open>exportVideo\<close>, lines 109 to 121)\<close>

text \<open>The double quote inside the first two MIME types is the character \<open>0x22\<close>.\<close>

definition mimeTypes :: "string list" where
  "mimeTypes =
     [''video/mp4; codecs='' @ [CHR 0x22] @ ''avc1.42E01E, mp4a.40.2'' @ [CHR 0x22],
      ''video/mp4; codecs='' @ [CHR 0x22] @ ''avc1.64001E, mp4a.40.2'' @ [CHR 0x22],
      ''video/mp4'',
      ''video/webm; codecs=vp9'',
      ''video/webm'']"

text \<open>
  \<^verbatim>\<open>mimeTypes.find(type => MediaRecorder.isTypeSupported(type)) || ''\<close>, then the second
  look at \<^verbatim>\<open>'video/mp4'\<close> and \<^verbatim>\<open>'video/webm'\<close> when nothing was found. The empty
  string stands for "no type selected".
\<close>

definition selectedMimeType :: "Runtime \<Rightarrow> string" where
  "selectedMimeType rt =
     (let found = (case find (isTypeSupported rt) mimeTypes of None \<Rightarrow> [] | Some t \<Rightarrow> t)
      in if found = []
         then (if isTypeSupported rt ''video/mp4'' then ''video/mp4''
               else if isTypeSupported rt ''video/webm'' then ''video/webm''
               else found)
         else found)"

text \<open>\<^verbatim>\<open>exportAudioOnly\<close>, lines 256 and 257.\<close>

definition audioMimeTypes :: "string list" where
  "audioMimeTypes = [''audio/mp4'', ''audio/aac'', ''audio/webm'', ''audio/ogg'']"

definition selectedMime :: "Runtime \<Rightarrow> string" where
  "selectedMime rt =
     (case find (isTypeSupported rt) audioMimeTypes of None \<Rightarrow> [] | Some t \<Rightarrow> t)"

subsection \<open>Recorder, resources and finalization\<close>

text \<open>
  What the export has acquired and released: the audio context (created at line 58 or
  239, closed by \<^verbatim>\<open>audioCtx.close()\<close>), the captured streams (line 103 to 107, their
  tracks stopped at lines 145 and 146) and the recorder (started by
  \<^verbatim>\<open>recorder.start()\<close>, stopped by \<^verbatim>\<open>recorder.stop()\<close>).
\<close>

record Resources =
  audioCtxCreated :: bool
  audioCtxClosed :: bool
  streamCaptured :: bool
  tracksStopped :: bool
  recorderStarted :: bool
  recorderStopped :: bool

definition noResources :: Resources where
  "noResources =
     \<lparr>audioCtxCreated = False, audioCtxClosed = False, streamCaptured = False,
      tracksStopped = False, recorderStarted = False, recorderStopped = False\<rparr>"

record Blob =
  blob_size :: nat
  blob_type :: string

text \<open>
  \<^verbatim>\<open>new Blob(chunks, { type })\<close>: the size of a blob is the sum of the sizes of its parts.
\<close>

definition newBlob :: "nat list \<Rightarrow> string \<Rightarrow> Blob" where
  "newBlob chunks ty = \<lparr>blob_size = sum_list chunks, blob_type = ty\<rparr>"

text \<open>
  \<^verbatim>\<open>recorder.ondataavailable\<close> of \<^verbatim>\<open>exportVideo\<close> keeps the chunks of positive size;
  that of \<^verbatim>\<open>exportAudioOnly\<close> keeps every chunk.
\<close>

definition videoChunks :: "Runtime \<Rightarrow> nat list" where
  "videoChunks rt = filter (\<lambda>n. 0 < n) (dataavailable rt)"

definition audioChunks :: "Runtime \<Rightarrow> nat list" where
  "audioChunks rt = dataavailable rt"

text \<open>\<^verbatim>\<open>recorder.onstop\<close> of \<^verbatim>\<open>exportVideo\<close>, lines 141 to 151.\<close>

definition video_onstop :: "string \<Rightarrow> nat list \<Rightarrow> Resources \<Rightarrow> Blob Promise \<times> Resources" where
  "video_onstop mime chunks res =
     (let blob = newBlob chunks (if mime = [] then ''video/mp4'' else mime);
          res' = res\<lparr>tracksStopped := True, audioCtxClosed := True\<rparr>
      in (if blob_size blob = 0 then Rejected OutputFileEmpty else Resolved blob, res'))"

text \<open>\<^verbatim>\<open>recorder.onstop\<close> of \<^verbatim>\<open>exportAudioOnly\<close>, lines 264 to 269.\<close>

definition audio_onstop :: "string \<Rightarrow> nat list \<Rightarrow> Resources \<Rightarrow> Blob Promise \<times> Resources" where
  "audio_onstop mime chunks res =
     (let blob = newBlob chunks (if mime = [] then ''audio/mp4'' else mime);
          res' = res\<lparr>audioCtxClosed := True\<rparr>
      in (if blob_size blob = 0 then Rejected AudioFileEmpty else Resolved blob, res'))"

subsection \<open>Render loop (\<^verbatim>\<open>exportVideo\<close>, lines 176 to 232)\<close>

text \<open>
  A painted frame: the image of a scene at a scale (the geometry of \<^verbatim>\<open>drawImage\<close> is
  not modelled), or the black rectangle of the fallback.
\<close>

datatype Frame = SceneFrame TimelineScene real | FallbackFrame

text \<open>
  \<^verbatim>\<open>timelineScenes.find(s => elapsedSecs >= s.startTime && elapsedSecs < s.endTime)\<close>.
\<close>

definition findActive :: "TimelineScene list \<Rightarrow> real \<Rightarrow> TimelineScene option" where
  "findActive entries elapsedSecs =
     find (\<lambda>s. startTime s \<le> elapsedSecs \<and> elapsedSecs < endTime s) entries"

definition paintFrame :: "TimelineScene list \<Rightarrow> real \<Rightarrow> Frame" where
  "paintFrame entries elapsedSecs =
     (case findActive entries elapsedSecs of
        Some currentScene \<Rightarrow>
          let sceneProgress =
                (elapsedSecs - startTime currentScene) / finalDuration (loaded currentScene)
          in SceneFrame currentScene (1 + 0.05 * sceneProgress)
      | None \<Rightarrow> FallbackFrame)"

text \<open>One iteration of the loop at a value of \<^verbatim>\<open>elapsedSecs\<close>: leave the loop, or paint.\<close>

datatype Iteration = Break | Paint Frame

definition renderStep :: "real \<Rightarrow> TimelineScene list \<Rightarrow> real \<Rightarrow> Iteration" where
  "renderStep totalSecs entries elapsedSecs =
     (if elapsedSecs \<ge> totalSecs then Break else Paint (paintFrame entries elapsedSecs))"

text \<open>
  The loop reads the clock once in every iteration. It returns the frames painted before
  the \<^verbatim>\<open>break\<close>, and \<^const>\<open>None\<close> when the readings end before it.
\<close>

fun renderLoop :: "real \<Rightarrow> real \<Rightarrow> TimelineScene list \<Rightarrow> real list \<Rightarrow> Frame list option" where
  "renderLoop audioStartTime totalSecs entries [] = None"
| "renderLoop audioStartTime totalSecs entries (currentAudioTime # clock) =
     (case renderStep totalSecs entries (max 0 (currentAudioTime - audioStartTime)) of
        Break \<Rightarrow> Some []
      | Paint frame \<Rightarrow>
          map_option (Cons frame) (renderLoop audioStartTime totalSecs entries clock))"


subsection \<open>\<^verbatim>\<open>exportAudioOnly\<close>\<close>

text \<open>
  The \<^verbatim>\<open>forEach\<close> of lines 280 to 291 over the buffers and their scenes, with the mutable
  \<^verbatim>\<open>totalDuration\<close>.
\<close>

fun audioTotalDuration :: "real \<Rightarrow> (real option \<times> Scene) list \<Rightarrow> real" where
  "audioTotalDuration totalSecs [] = totalSecs"
| "audioTotalDuration totalSecs ((buffer, scene) # rest) =
     audioTotalDuration (totalSecs + sceneDuration buffer scene) rest"

text \<open>
  The loop of lines 294 to 304; \<^verbatim>\<open>elapsed\<close> is not clamped here. It returns the number
  of progress reports made before the \<^verbatim>\<open>break\<close>.
\<close>

fun audioLoop :: "real \<Rightarrow> real \<Rightarrow> real list \<Rightarrow> nat option" where
  "audioLoop start0 totalSecs [] = None"
| "audioLoop start0 totalSecs (now # clock) =
     (if now - start0 \<ge> totalSecs then Some 0
      else map_option Suc (audioLoop start0 totalSecs clock))"

definition exportAudioOnly :: "Runtime \<Rightarrow> Scene list \<Rightarrow> Blob Promise \<times> Resources" where
  "exportAudioOnly rt scenes =
     (let res1 = noResources\<lparr>audioCtxCreated := True\<rparr>;
          loadedAudios = map (loadAudio rt) scenes;
          mime = selectedMime rt;
          res2 = res1\<lparr>recorderStarted := True\<rparr>
      in case currentTime rt of
           [] \<Rightarrow> (Unsettled, res2)
         | now # clock \<Rightarrow>
             (case audioLoop (now + 0.1) (audioTotalDuration 0 (zip loadedAudios scenes)) clock of
                None \<Rightarrow> (Unsettled, res2)
              | Some reports \<Rightarrow>
                  audio_onstop mime (audioChunks rt) (res2\<lparr>recorderStopped := True\<rparr>)))"

subsection \<open>\<^verbatim>\<open>exportVideo\<close>\<close>

record ExportOptions =
  aspectRatio :: ImageAspect
  format :: ExportFormat

text \<open>
  The function from its first line to the settlement of the promise it returns;
  \<open>recordTimeline\<close> is its part from line 102 on, after the timeline is built. The
  size of the canvas, the bit rate and the progress reports do not bear on the outcome
  and are left out, and so are the painted frames and the started audio sources, which
  \<open>renderLoop\<close> and \<open>scheduleAudio\<close> give; \<^verbatim>\<open>audioCtx.resume()\<close> and the constructor of the recorder are taken
  to succeed, and the recorder to raise no \<^verbatim>\<open>error\<close> event.
\<close>

definition recordTimeline ::
  "Runtime \<Rightarrow> TimelineScene list \<Rightarrow> real \<Rightarrow> Resources \<Rightarrow> Blob Promise \<times> Resources" where
  "recordTimeline rt entries totalSecs res1 =
     (let res2 = res1\<lparr>streamCaptured := True\<rparr>;
          mime = selectedMimeType rt
      in (case currentTime rt of
            [] \<Rightarrow> (Unsettled, res2)
          | now # clock \<Rightarrow>
              (case renderLoop (now + 0.1) totalSecs entries clock of
                 None \<Rightarrow> (Unsettled, res2\<lparr>recorderStarted := True\<rparr>)
               | Some frames \<Rightarrow>
                   video_onstop mime (videoChunks rt)
                     ((res2\<lparr>recorderStarted := True\<rparr>)\<lparr>recorderStopped := True\<rparr>))))"

definition exportVideo :: "Runtime \<Rightarrow> Scene list \<Rightarrow> ExportOptions \<Rightarrow> Blob Promise \<times> Resources" where
  "exportVideo rt scenes options =
     (if format options = AudioOnly then exportAudioOnly rt scenes
      else if \<not> getContext rt then (Rejected CanvasContextError, noResources)
      else
        (case preload rt scenes of
           Inl e \<Rightarrow> (Rejected e, noResources\<lparr>audioCtxCreated := True\<rparr>)
         | Inr loadedScenes \<Rightarrow>
             recordTimeline rt (timelineScenes loadedScenes) (totalDuration loadedScenes)
               (noResources\<lparr>audioCtxCreated := True\<rparr>)))"

subsection \<open>The player (\<^verbatim>\<open>Player\<close>, lines 22 to 32 and 201 to 222)\<close>







record PlayerState =
  currentSceneIndex :: nat
  sceneProgress :: real


subsection \<open>Example data\<close>

text \<open>
  A ready scene with an image, for the concrete cases below: its sequence number, its
  estimated duration, its manual duration, its audio URL and its recorded audio duration.
\<close>

definition exampleScene ::
  "int \<Rightarrow> real \<Rightarrow> real option \<Rightarrow> string option \<Rightarrow> real option \<Rightarrow> Scene" where
  "exampleScene n estimated manual audio audioSecs =
     \<lparr>scene_id = ''scene'', sequence = n, scriptText = [], visualPrompt = [],
      estimatedDuration = estimated, manualDuration = manual,
      imageUrl = Some ''image'', audioUrl = audio, audioDuration = audioSecs,
      status = Status_ready, scene_error = None\<rparr>"

text \<open>
  Scenario A of the specification: three scenes with decoded audio of 4 seconds, none
  and 6.5 seconds, and estimates of 5, 3 and 6 seconds, in a runtime where every image
  loads and only \<^verbatim>\<open>video/webm\<close> is supported.
\<close>

definition scenarioA :: "Scene list" where
  "scenarioA =
     [exampleScene 1 5 None (Some ''audio1'') (Some 4),
      exampleScene 2 3 None None None,
      exampleScene 3 6 None (Some ''audio3'') (Some 6.5)]"

definition scenarioRuntime :: Runtime where
  "scenarioRuntime =
     \<lparr>getContext = True,
      imageEvent = (\<lambda>url. Onload),
      decodeAudioData =
        (\<lambda>url. if url = ''audio1'' then Some 4 else if url = ''audio3'' then Some 6.5 else None),
      isTypeSupported = (\<lambda>ty. ty = ''video/webm''),
      currentTime = [0, 1, 6, 20],
      dataavailable = [100, 0, 50]\<rparr>"

definition scenarioLoaded :: "LoadedScene list" where
  "scenarioLoaded = fulfilled (map (loadScene scenarioRuntime) scenarioA)"

text \<open>
  The options of a video export; a scene whose image does not load, with the runtime
  that fails it; and a runtime that supports no MIME type at all.
\<close>

definition videoOptions :: ExportOptions where
  "videoOptions = \<lparr>aspectRatio = SixteenNine, format = Video1080p\<rparr>"

definition brokenImageScene :: Scene where
  "brokenImageScene =
     (exampleScene 2 3 None (Some ''audio2'') None)\<lparr>imageUrl := Some ''broken''\<rparr>"

definition brokenImageRuntime :: Runtime where
  "brokenImageRuntime =
     scenarioRuntime\<lparr>imageEvent := (\<lambda>url. if url = ''broken'' then Onerror 0 else Onload)\<rparr>"

definition noCodecRuntime :: Runtime where
  "noCodecRuntime = scenarioRuntime\<lparr>isTypeSupported := (\<lambda>ty. False)\<rparr>"

section \<open>Verification\<close>

subsection \<open>Auxiliary facts\<close>

lemma orElse_Some_le_max: "b = Some a \<Longrightarrow> a \<le> max (orElse b 0) x"
  by (cases "a = 0") auto

lemma specFinalDuration_ge_estimate: "estimatedDuration s \<le> specFinalDuration floorSecs b s"
  by (simp add: specFinalDuration_def)





lemma find_first:
  "i < length xs \<Longrightarrow> P (xs ! i) \<Longrightarrow> (\<forall>j<i. \<not> P (xs ! j)) \<Longrightarrow> find P xs = Some (xs ! i)"
proof (induction xs arbitrary: i)
  case Nil
  then show ?case by simp
next
  case (Cons x xs)
  show ?case
  proof (cases i)
    case 0
    with Cons.prems show ?thesis by simp
  next
    case (Suc k)
    from Cons.prems Suc have "\<not> P x" by auto
    moreover from Cons.prems Suc have "find P xs = Some (xs ! k)"
      by (intro Cons.IH) auto
    ultimately show ?thesis using Suc by simp
  qed
qed


















lemma scenarioLoaded_eq:
  "scenarioLoaded =
     [\<lparr>sceneOf = exampleScene 1 5 None (Some ''audio1'') (Some 4), img = ''image'',
        audioBuffer = Some 4, finalDuration = 5\<rparr>,
      \<lparr>sceneOf = exampleScene 2 3 None None None, img = ''image'',
        audioBuffer = None, finalDuration = 3\<rparr>,
      \<lparr>sceneOf = exampleScene 3 6 None (Some ''audio3'') (Some 6.5), img = ''image'',
        audioBuffer = Some 6.5, finalDuration = 6.5\<rparr>]"
  by (simp add: scenarioLoaded_def scenarioA_def scenarioRuntime_def loadScene_def loadImage_def
      loadAudio_def computeFinalDuration_def exampleScene_def Let_def)

lemma preload_scenarioA: "preload scenarioRuntime scenarioA = Inr scenarioLoaded"
  by (simp add: preload_def promiseAll_def scenarioLoaded_def scenarioA_def scenarioRuntime_def loadScene_def loadImage_def
      loadAudio_def computeFinalDuration_def exampleScene_def Let_def)


lemma timelineScenes_scenarioLoaded:
  "timelineScenes scenarioLoaded =
     [\<lparr>loaded = scenarioLoaded ! 0, startTime = 0, endTime = 5\<rparr>,
      \<lparr>loaded = scenarioLoaded ! 1, startTime = 5, endTime = 8\<rparr>,
      \<lparr>loaded = scenarioLoaded ! 2, startTime = 8, endTime = 14.5\<rparr>]"
  by (simp add: timelineScenes_def scenarioLoaded_eq)

lemma sum_list_positive_chunks: "sum_list (filter (\<lambda>n. 0 < n) xs) = sum_list (xs::nat list)"
  by (induction xs) auto






lemma renderLoop_returns:
  "list_ex (\<lambda>c. totalSecs \<le> max 0 (c - audioStartTime)) clock \<Longrightarrow>
   \<exists>frames. renderLoop audioStartTime totalSecs entries clock = Some frames"
proof (induction clock)
  case Nil
  then show ?case by simp
next
  case (Cons c clock)
  show ?case
  proof (cases "totalSecs \<le> max 0 (c - audioStartTime)")
    case True
    then show ?thesis by (simp add: renderStep_def)
  next
    case False
    with Cons.prems have "list_ex (\<lambda>c. totalSecs \<le> max 0 (c - audioStartTime)) clock" by simp
    from Cons.IH [OF this] False show ?thesis by (auto simp: renderStep_def)
  qed
qed

lemma audioLoop_returns:
  "list_ex (\<lambda>c. totalSecs \<le> c - start0) clock \<Longrightarrow>
   \<exists>reports. audioLoop start0 totalSecs clock = Some reports"
  by (induction clock) auto

lemma renderLoop_scenario:
  "renderLoop (0 + 0.1) (totalDuration scenarioLoaded) (timelineScenes scenarioLoaded) [1, 6, 20]
   = Some [SceneFrame (timelineScenes scenarioLoaded ! 0) (1 + 0.05 * (0.9 / 5)),
           SceneFrame (timelineScenes scenarioLoaded ! 1) (1 + 0.05 * (0.9 / 3))]"
proof -
  have total: "totalDuration scenarioLoaded = 14.5"
    by (simp add: totalDuration_def scenarioLoaded_eq)
  have durations: "finalDuration (scenarioLoaded ! 0) = 5" "finalDuration (scenarioLoaded ! Suc 0) = 3"
    by (simp_all add: scenarioLoaded_eq)
  show ?thesis
    by (simp add: total durations renderStep_def paintFrame_def findActive_def
        timelineScenes_scenarioLoaded)
qed

lemma clock_scenario:
  "currentTime scenarioRuntime = 0 # [1, 6, 20]"
  "dataavailable scenarioRuntime = [100, 0, 50]"
  "getContext scenarioRuntime"
  by (simp_all add: scenarioRuntime_def)

lemma exportVideo_scenarioA:
  "exportVideo scenarioRuntime scenarioA videoOptions
     = (Resolved \<lparr>blob_size = 150, blob_type = ''video/webm''\<rparr>,
        \<lparr>audioCtxCreated = True, audioCtxClosed = True, streamCaptured = True,
         tracksStopped = True, recorderStarted = True, recorderStopped = True\<rparr>)"
proof -
  have mime: "selectedMimeType scenarioRuntime = ''video/webm''"
    by (simp add: selectedMimeType_def scenarioRuntime_def mimeTypes_def)
  show ?thesis
    using renderLoop_scenario
    by (simp add: exportVideo_def videoOptions_def preload_scenarioA recordTimeline_def
        Let_def mime clock_scenario videoChunks_def video_onstop_def newBlob_def noResources_def)
qed

lemma audioTotalDuration_scenarioA:
  "audioTotalDuration 0 (zip (map (loadAudio scenarioRuntime) scenarioA) scenarioA) = 14.5"
  by (simp add: scenarioA_def loadAudio_def scenarioRuntime_def sceneDuration_def exampleScene_def)

lemma exportAudioOnly_scenarioA:
  "exportAudioOnly scenarioRuntime scenarioA
     = (Resolved \<lparr>blob_size = 150, blob_type = ''audio/mp4''\<rparr>,
        \<lparr>audioCtxCreated = True, audioCtxClosed = True, streamCaptured = False,
         tracksStopped = False, recorderStarted = True, recorderStopped = True\<rparr>)"
proof -
  have mime: "selectedMime scenarioRuntime = []"
    by (simp add: selectedMime_def scenarioRuntime_def audioMimeTypes_def)
  show ?thesis
    by (simp add: exportAudioOnly_def Let_def mime clock_scenario audioTotalDuration_scenarioA
        audioChunks_def audio_onstop_def newBlob_def noResources_def)
qed

lemma mimeTypes_nonempty: "ty \<in> set mimeTypes \<Longrightarrow> ty \<noteq> []"
  by (auto simp: mimeTypes_def)

lemma audioMimeTypes_nonempty: "ty \<in> set audioMimeTypes \<Longrightarrow> ty \<noteq> []"
  by (auto simp: audioMimeTypes_def)

lemma plain_types_listed: "''video/mp4'' \<in> set mimeTypes" "''video/webm'' \<in> set mimeTypes"
  by (simp_all add: mimeTypes_def)

lemma selectedMimeType_first:
  assumes "i < length mimeTypes" "isTypeSupported rt (mimeTypes ! i)"
    "\<forall>j<i. \<not> isTypeSupported rt (mimeTypes ! j)"
  shows "selectedMimeType rt = mimeTypes ! i"
proof -
  from assms have "find (isTypeSupported rt) mimeTypes = Some (mimeTypes ! i)"
    by (rule find_first)
  moreover from assms(1) have "mimeTypes ! i \<noteq> []"
    by (intro mimeTypes_nonempty) simp
  ultimately show ?thesis by (simp add: selectedMimeType_def)
qed

lemma selectedMimeType_none:
  assumes "list_all (\<lambda>ty. \<not> isTypeSupported rt ty) mimeTypes"
  shows "selectedMimeType rt = []"
proof -
  from assms have "find (isTypeSupported rt) mimeTypes = None"
    by (simp add: find_None_iff list_all_iff)
  moreover from assms plain_types_listed
  have "\<not> isTypeSupported rt ''video/mp4''" "\<not> isTypeSupported rt ''video/webm''"
    unfolding list_all_iff by blast+
  ultimately show ?thesis by (simp add: selectedMimeType_def)
qed

lemma selectedMime_first:
  assumes "i < length audioMimeTypes" "isTypeSupported rt (audioMimeTypes ! i)"
    "\<forall>j<i. \<not> isTypeSupported rt (audioMimeTypes ! j)"
  shows "selectedMime rt = audioMimeTypes ! i"
proof -
  from assms have "find (isTypeSupported rt) audioMimeTypes = Some (audioMimeTypes ! i)"
    by (rule find_first)
  then show ?thesis by (simp add: selectedMime_def)
qed

lemma selectedMime_none:
  assumes "list_all (\<lambda>ty. \<not> isTypeSupported rt ty) audioMimeTypes"
  shows "selectedMime rt = []"
proof -
  from assms have "find (isTypeSupported rt) audioMimeTypes = None"
    by (simp add: find_None_iff list_all_iff)
  then show ?thesis by (simp add: selectedMime_def)
qed

lemma preload_noCodec: "preload noCodecRuntime scenarioA = Inr scenarioLoaded"
  by (simp add: preload_def promiseAll_def scenarioLoaded_def scenarioA_def scenarioRuntime_def
      noCodecRuntime_def loadScene_def loadImage_def loadAudio_def computeFinalDuration_def
      exampleScene_def Let_def)













lemma loadImage_broken:
  "loadImage brokenImageRuntime brokenImageScene = Inl (Suc 0, ImageLoadFailed 2)"
  "loadImage brokenImageRuntime (exampleScene 1 5 None (Some ''audio1'') (Some 4)) = Inr ''image''"
  by (simp_all add: loadImage_def brokenImageRuntime_def brokenImageScene_def exampleScene_def)

subsection \<open>Duration resolution\<close>

text \<open>
  C1. The claim: the final duration of the export is
  \<open>max(manualDuration ?? 0, resolvedAudioDuration ?? 0, estimatedDuration ?? 0, floor)\<close> with a
  floor of at least one second, so it is never below any candidate. The code computes
  \<open>max(audio || 0, manualDuration || estimatedDuration || 5)\<close>, in \<^verbatim>\<open>exportVideo\<close> and in
  \<^verbatim>\<open>exportAudioOnly\<close> alike. What holds: the two export paths agree; the result is never
  below the decoded audio duration; with a manual duration that is set (not zero) it is
  the larger of the audio duration and the manual duration, whatever the estimate; with
  no manual duration it is the larger of the audio duration and the estimate (5 when the
  estimate is zero); and it is positive when neither the manual duration nor the estimate
  is negative.
\<close>

theorem finalDuration_resolution:
  "sceneDuration b s = computeFinalDuration b s
   \<and> orElse b 0 \<le> computeFinalDuration b s
   \<and> (\<forall>a. b = Some a \<longrightarrow> a \<le> computeFinalDuration b s)
   \<and> (\<forall>m. manualDuration s = Some m \<longrightarrow> m \<noteq> 0 \<longrightarrow>
          computeFinalDuration b s = max (orElse b 0) m)
   \<and> (\<not> truthy (manualDuration s) \<longrightarrow>
          computeFinalDuration b s =
            max (orElse b 0) (if estimatedDuration s \<noteq> 0 then estimatedDuration s else 5))
   \<and> ((\<forall>m. manualDuration s = Some m \<longrightarrow> 0 \<le> m) \<longrightarrow> 0 \<le> estimatedDuration s \<longrightarrow>
          0 < computeFinalDuration b s)"
proof -
  have same: "sceneDuration b s = computeFinalDuration b s"
    by (simp add: sceneDuration_def computeFinalDuration_def)
  have audio: "orElse b 0 \<le> computeFinalDuration b s"
    by (simp add: computeFinalDuration_def)
  have buffer: "\<forall>a. b = Some a \<longrightarrow> a \<le> computeFinalDuration b s"
    by (auto simp: computeFinalDuration_def intro: orElse_Some_le_max)
  have manual: "\<forall>m. manualDuration s = Some m \<longrightarrow> m \<noteq> 0 \<longrightarrow>
      computeFinalDuration b s = max (orElse b 0) m"
    by (simp add: computeFinalDuration_def)
  have estimate: "\<not> truthy (manualDuration s) \<longrightarrow>
      computeFinalDuration b s =
        max (orElse b 0) (if estimatedDuration s \<noteq> 0 then estimatedDuration s else 5)"
    by (cases "manualDuration s") (auto simp: computeFinalDuration_def)
  have positive: "(\<forall>m. manualDuration s = Some m \<longrightarrow> 0 \<le> m) \<longrightarrow> 0 \<le> estimatedDuration s \<longrightarrow>
      0 < computeFinalDuration b s"
    by (cases "manualDuration s") (auto simp: computeFinalDuration_def max_def)
  from same audio buffer manual estimate positive show ?thesis by blast
qed

text \<open>
  At a scene with audio of 4 seconds, an estimate of 5 and no manual duration the result
  is 5; at a scene with a manual duration of 2, no audio and the same estimate it is 2.
\<close>

theorem finalDuration_resolution_witness:
  "sceneDuration (Some 4) (exampleScene 1 5 None (Some ''audio'') (Some 4)) =
     computeFinalDuration (Some 4) (exampleScene 1 5 None (Some ''audio'') (Some 4))
   \<and> 4 \<le> computeFinalDuration (Some 4) (exampleScene 1 5 None (Some ''audio'') (Some 4))
   \<and> computeFinalDuration (Some 4) (exampleScene 1 5 None (Some ''audio'') (Some 4)) = 5
   \<and> computeFinalDuration None (exampleScene 1 5 (Some 2) None None) = 2
   \<and> 0 < computeFinalDuration None (exampleScene 1 5 (Some 2) None None)"
  using finalDuration_resolution [of "Some 4" "exampleScene 1 5 None (Some ''audio'') (Some 4)"]
    finalDuration_resolution [of None "exampleScene 1 5 (Some 2) None None"]
  by (simp add: exampleScene_def)

text \<open>
  The claim fails where a manual duration is below the estimate: the final duration of
  that scene is 2, below its estimate of 5 and below the 5 that the formula of the
  specification yields with a floor of one second (by \<open>specFinalDuration_ge_estimate\<close>
  no floor makes the formula yield less than the estimate).
\<close>

theorem finalDuration_below_estimate:
  "computeFinalDuration None (exampleScene 1 5 (Some 2) None None) = 2
   \<and> computeFinalDuration None (exampleScene 1 5 (Some 2) None None)
       < estimatedDuration (exampleScene 1 5 (Some 2) None None)
   \<and> specFinalDuration 1 None (exampleScene 1 5 (Some 2) None None) = 5"
  by (simp add: computeFinalDuration_def specFinalDuration_def exampleScene_def)

text \<open>
  C9. The claim: a manual duration at or above the audio duration becomes the final
  duration, and one below it never shrinks the final duration below the audio duration.
  The first half holds for every value but zero, which \<^verbatim>\<open>||\<close> takes as "not set"; the
  second half holds for every value.
\<close>

theorem manualDuration_override:
  "(v \<noteq> 0 \<longrightarrow> orElse b 0 \<le> v \<longrightarrow>
      computeFinalDuration b (s\<lparr>manualDuration := Some v\<rparr>) = v)
   \<and> orElse b 0 \<le> computeFinalDuration b (s\<lparr>manualDuration := Some v\<rparr>)"
  by (simp add: computeFinalDuration_def)

theorem manualDuration_override_witness:
  "(7::real) \<noteq> 0 \<and> orElse (Some 4) 0 \<le> (7::real)
   \<and> computeFinalDuration (Some 4)
       ((exampleScene 1 5 None (Some ''audio'') (Some 4))\<lparr>manualDuration := Some 7\<rparr>) = 7
   \<and> orElse (Some 4) 0 \<le> computeFinalDuration (Some 4)
       ((exampleScene 1 5 None (Some ''audio'') (Some 4))\<lparr>manualDuration := Some 7\<rparr>)"
  using manualDuration_override [of 7 "Some 4" "exampleScene 1 5 None (Some ''audio'') (Some 4)"]
  by simp

text \<open>
  A scene without audio has the audio duration 0; the manual duration 0 is at or above
  it, and the final duration is then 5 (the estimate), not 0.
\<close>

theorem manualDuration_zero_ignored:
  "orElse None 0 \<le> (0::real)
   \<and> computeFinalDuration None ((exampleScene 1 5 None None None)\<lparr>manualDuration := Some 0\<rparr>) = 5"
  by (simp add: computeFinalDuration_def exampleScene_def)




subsection \<open>Timeline\<close>




text \<open>
  C2. The claim: for Scenario A the exporter computes the final durations 4, 3 and 6.5,
  the starts 0, 4 and 7 and the total 13.5. The first scene has 4 seconds of audio and
  an estimate of 5, and the exporter takes the larger: the final durations are 5, 3 and
  6.5, the starts 0, 5 and 8, the ends 5, 8 and 14.5, and the total is 14.5.
\<close>

theorem scenarioA_timeline:
  "preload scenarioRuntime scenarioA = Inr scenarioLoaded
   \<and> map finalDuration scenarioLoaded = [5, 3, 6.5]
   \<and> map startTime (timelineScenes scenarioLoaded) = [0, 5, 8]
   \<and> map endTime (timelineScenes scenarioLoaded) = [5, 8, 14.5]
   \<and> totalDuration scenarioLoaded = 14.5"
  by (simp add: preload_scenarioA scenarioLoaded_eq timelineScenes_def totalDuration_def)

text \<open>
  The values of the claim are not those of the exporter: the first final duration is not
  4, the starts are not 0, 4 and 7, and the total is not 13.5.
\<close>

theorem scenarioA_not_as_claimed:
  "preload scenarioRuntime scenarioA = Inr scenarioLoaded
   \<and> map finalDuration scenarioLoaded \<noteq> [4, 3, 6.5]
   \<and> map startTime (timelineScenes scenarioLoaded) \<noteq> [0, 4, 7]
   \<and> totalDuration scenarioLoaded \<noteq> 13.5"
  by (simp add: preload_scenarioA scenarioLoaded_eq timelineScenes_def totalDuration_def)


subsection \<open>Active scene\<close>







subsection \<open>Codec negotiation\<close>

text \<open>
  C5. The claim: the first supported entry of the ordered list is selected, and when
  none is supported the export fails instead of recording with an unspecified codec.
  The first half holds, for the video list and for the audio list. When no entry is
  supported the selected type is the empty string, which leaves the choice to the
  recorder, and the export goes on: once the clock reaches the total duration and the
  recorder has delivered data, the promise resolves with a blob labelled
  \<^verbatim>\<open>video/mp4\<close> (\<^verbatim>\<open>audio/mp4\<close> for the audio export).
\<close>

theorem codec_negotiation:
  "(\<forall>i. i < length mimeTypes \<and> isTypeSupported rt (mimeTypes ! i)
        \<and> (\<forall>j<i. \<not> isTypeSupported rt (mimeTypes ! j))
      \<longrightarrow> selectedMimeType rt = mimeTypes ! i)
   \<and> (\<forall>i. i < length audioMimeTypes \<and> isTypeSupported rt (audioMimeTypes ! i)
        \<and> (\<forall>j<i. \<not> isTypeSupported rt (audioMimeTypes ! j))
      \<longrightarrow> selectedMime rt = audioMimeTypes ! i)
   \<and> (list_all (\<lambda>ty. \<not> isTypeSupported rt ty) mimeTypes
      \<longrightarrow> selectedMimeType rt = []
        \<and> (\<forall>now clock.
              currentTime rt = now # clock
              \<and> list_ex (\<lambda>c. totalSecs \<le> max 0 (c - (now + 0.1))) clock
              \<and> 0 < sum_list (dataavailable rt)
            \<longrightarrow> fst (recordTimeline rt entries totalSecs res)
                  = Resolved \<lparr>blob_size = sum_list (dataavailable rt), blob_type = ''video/mp4''\<rparr>))
   \<and> (list_all (\<lambda>ty. \<not> isTypeSupported rt ty) audioMimeTypes
      \<longrightarrow> selectedMime rt = []
        \<and> (\<forall>now clock.
              currentTime rt = now # clock
              \<and> list_ex (\<lambda>c. audioTotalDuration 0 (zip (map (loadAudio rt) scenes) scenes)
                               \<le> c - (now + 0.1)) clock
              \<and> 0 < sum_list (dataavailable rt)
            \<longrightarrow> fst (exportAudioOnly rt scenes)
                  = Resolved \<lparr>blob_size = sum_list (dataavailable rt), blob_type = ''audio/mp4''\<rparr>))"
proof (intro conjI allI impI)
  fix i
  assume "i < length mimeTypes \<and> isTypeSupported rt (mimeTypes ! i)
        \<and> (\<forall>j<i. \<not> isTypeSupported rt (mimeTypes ! j))"
  then show "selectedMimeType rt = mimeTypes ! i"
    by (intro selectedMimeType_first) simp_all
next
  fix i
  assume "i < length audioMimeTypes \<and> isTypeSupported rt (audioMimeTypes ! i)
        \<and> (\<forall>j<i. \<not> isTypeSupported rt (audioMimeTypes ! j))"
  then show "selectedMime rt = audioMimeTypes ! i"
    by (intro selectedMime_first) simp_all
next
  assume "list_all (\<lambda>ty. \<not> isTypeSupported rt ty) mimeTypes"
  then show "selectedMimeType rt = []" by (rule selectedMimeType_none)
next
  fix now clock
  assume none: "list_all (\<lambda>ty. \<not> isTypeSupported rt ty) mimeTypes"
    and run: "currentTime rt = now # clock
              \<and> list_ex (\<lambda>c. totalSecs \<le> max 0 (c - (now + 0.1))) clock
              \<and> 0 < sum_list (dataavailable rt)"
  from run obtain frames where "renderLoop (now + 0.1) totalSecs entries clock = Some frames"
    using renderLoop_returns [of totalSecs "now + 0.1" clock entries] by blast
  moreover from run have "sum_list (dataavailable rt) \<noteq> 0" by (simp del: sum_list_eq_0_iff)
  ultimately show "fst (recordTimeline rt entries totalSecs res)
          = Resolved \<lparr>blob_size = sum_list (dataavailable rt), blob_type = ''video/mp4''\<rparr>"
    using run selectedMimeType_none [OF none]
    by (simp add: recordTimeline_def Let_def videoChunks_def video_onstop_def newBlob_def
        sum_list_positive_chunks del: sum_list_eq_0_iff)
next
  assume "list_all (\<lambda>ty. \<not> isTypeSupported rt ty) audioMimeTypes"
  then show "selectedMime rt = []" by (rule selectedMime_none)
next
  fix now clock
  let ?total = "audioTotalDuration 0 (zip (map (loadAudio rt) scenes) scenes)"
  assume none: "list_all (\<lambda>ty. \<not> isTypeSupported rt ty) audioMimeTypes"
    and run: "currentTime rt = now # clock
              \<and> list_ex (\<lambda>c. ?total \<le> c - (now + 0.1)) clock
              \<and> 0 < sum_list (dataavailable rt)"
  from run obtain reports where "audioLoop (now + 0.1) ?total clock = Some reports"
    using audioLoop_returns [of ?total "now + 0.1" clock] by blast
  moreover from run have "sum_list (dataavailable rt) \<noteq> 0" by (simp del: sum_list_eq_0_iff)
  ultimately show "fst (exportAudioOnly rt scenes)
          = Resolved \<lparr>blob_size = sum_list (dataavailable rt), blob_type = ''audio/mp4''\<rparr>"
    using run selectedMime_none [OF none]
    by (simp add: exportAudioOnly_def Let_def audioChunks_def audio_onstop_def newBlob_def
        del: sum_list_eq_0_iff)
qed

theorem codec_negotiation_witness:
  "selectedMimeType scenarioRuntime = ''video/webm''
   \<and> selectedMime (scenarioRuntime\<lparr>isTypeSupported := (\<lambda>ty. ty = ''audio/aac'' \<or> ty = ''audio/ogg'')\<rparr>)
       = ''audio/aac''
   \<and> selectedMimeType noCodecRuntime = []
   \<and> fst (recordTimeline noCodecRuntime (timelineScenes scenarioLoaded)
            (totalDuration scenarioLoaded) noResources)
       = Resolved \<lparr>blob_size = 150, blob_type = ''video/mp4''\<rparr>
   \<and> selectedMime scenarioRuntime = []
   \<and> fst (exportAudioOnly scenarioRuntime scenarioA)
       = Resolved \<lparr>blob_size = 150, blob_type = ''audio/mp4''\<rparr>"
proof -
  let ?aac = "scenarioRuntime\<lparr>isTypeSupported := (\<lambda>ty. ty = ''audio/aac'' \<or> ty = ''audio/ogg'')\<rparr>"
  have supported: "4 < length mimeTypes \<and> isTypeSupported scenarioRuntime (mimeTypes ! 4)
      \<and> (\<forall>j<4. \<not> isTypeSupported scenarioRuntime (mimeTypes ! j))"
    by (simp add: mimeTypes_def scenarioRuntime_def less_Suc_eq numeral_eq_Suc)
  have aac: "1 < length audioMimeTypes \<and> isTypeSupported ?aac (audioMimeTypes ! 1)
      \<and> (\<forall>j<1. \<not> isTypeSupported ?aac (audioMimeTypes ! j))"
    by (simp add: audioMimeTypes_def)
  have none: "list_all (\<lambda>ty. \<not> isTypeSupported noCodecRuntime ty) mimeTypes"
    by (simp add: noCodecRuntime_def list_all_iff)
  have noaudio: "list_all (\<lambda>ty. \<not> isTypeSupported scenarioRuntime ty) audioMimeTypes"
    by (simp add: scenarioRuntime_def audioMimeTypes_def)
  have total: "totalDuration scenarioLoaded = 14.5"
    by (simp add: totalDuration_def scenarioLoaded_eq)
  have run: "currentTime noCodecRuntime = 0 # [1, 6, 20]
      \<and> list_ex (\<lambda>c. totalDuration scenarioLoaded \<le> max 0 (c - (0 + 0.1))) [1, 6, 20]
      \<and> 0 < sum_list (dataavailable noCodecRuntime)"
    by (simp add: total noCodecRuntime_def clock_scenario)
  have runaudio: "currentTime scenarioRuntime = 0 # [1, 6, 20]
      \<and> list_ex (\<lambda>c. audioTotalDuration 0 (zip (map (loadAudio scenarioRuntime) scenarioA) scenarioA)
                      \<le> c - (0 + 0.1)) [1, 6, 20]
      \<and> 0 < sum_list (dataavailable scenarioRuntime)"
    by (simp add: audioTotalDuration_scenarioA clock_scenario)
  note first = codec_negotiation [where rt = scenarioRuntime, THEN conjunct1, rule_format, OF supported]
  note second = codec_negotiation [where rt = ?aac, THEN conjunct2, THEN conjunct1, rule_format, OF aac]
  note third = codec_negotiation [where rt = noCodecRuntime and totalSecs = "totalDuration scenarioLoaded"
      and entries = "timelineScenes scenarioLoaded" and res = noResources,
      THEN conjunct2, THEN conjunct2, THEN conjunct1, rule_format, OF none]
  note fourth = codec_negotiation [where rt = scenarioRuntime and scenes = scenarioA,
      THEN conjunct2, THEN conjunct2, THEN conjunct2, rule_format, OF noaudio]
  from first second third [THEN conjunct1] third [THEN conjunct2, rule_format, OF run]
    fourth [THEN conjunct1] fourth [THEN conjunct2, rule_format, OF runaudio]
  show ?thesis
    by (simp add: mimeTypes_def audioMimeTypes_def)
       (simp add: noCodecRuntime_def clock_scenario)
qed

text \<open>
  In a runtime that supports none of the listed types the export of Scenario A resolves,
  with the 150 bytes the recorder delivered.
\<close>

theorem export_without_supported_codec:
  "list_all (\<lambda>ty. \<not> isTypeSupported noCodecRuntime ty) mimeTypes
   \<and> fst (exportVideo noCodecRuntime scenarioA videoOptions)
       = Resolved \<lparr>blob_size = 150, blob_type = ''video/mp4''\<rparr>"
proof -
  have "list_all (\<lambda>ty. \<not> isTypeSupported noCodecRuntime ty) mimeTypes"
    by (simp add: noCodecRuntime_def list_all_iff)
  moreover have "selectedMimeType noCodecRuntime = []"
    by (simp add: selectedMimeType_def noCodecRuntime_def mimeTypes_def)
  moreover have "currentTime noCodecRuntime = 0 # [1, 6, 20]"
    "dataavailable noCodecRuntime = [100, 0, 50]" "getContext noCodecRuntime"
    by (simp_all add: noCodecRuntime_def scenarioRuntime_def)
  ultimately show ?thesis
    using renderLoop_scenario
    by (simp add: exportVideo_def videoOptions_def preload_noCodec recordTimeline_def Let_def
        videoChunks_def video_onstop_def newBlob_def)
qed

subsection \<open>Preload\<close>




subsection \<open>Release of resources\<close>

text \<open>
  C7. The claim: on every exit path the audio context of the export is closed and the
  captured tracks are stopped. The handler \<^verbatim>\<open>recorder.onstop\<close> does both, so an export
  that reaches it, as that of Scenario A does, ends with everything released. The audio
  context is created before the preload, and a failed image rejects the promise from
  there, with no cleanup on the way: the export of a scene whose image fails ends with
  the audio context created and not closed.
\<close>

theorem image_failure_leaves_audio_context_open:
  "exportVideo brokenImageRuntime [brokenImageScene] videoOptions
     = (Rejected (ImageLoadFailed 2), noResources\<lparr>audioCtxCreated := True\<rparr>)
   \<and> audioCtxCreated (snd (exportVideo brokenImageRuntime [brokenImageScene] videoOptions))
   \<and> \<not> audioCtxClosed (snd (exportVideo brokenImageRuntime [brokenImageScene] videoOptions))
   \<and> exportVideo scenarioRuntime scenarioA videoOptions
     = (Resolved \<lparr>blob_size = 150, blob_type = ''video/webm''\<rparr>,
        \<lparr>audioCtxCreated = True, audioCtxClosed = True, streamCaptured = True,
         tracksStopped = True, recorderStarted = True, recorderStopped = True\<rparr>)"
proof -
  have ctx: "getContext brokenImageRuntime" "getContext scenarioRuntime"
    by (simp_all add: brokenImageRuntime_def scenarioRuntime_def)
  have "preload brokenImageRuntime [brokenImageScene] = Inl (ImageLoadFailed 2)"
    by (simp add: preload_def promiseAll_def loadScene_def loadImage_broken)
  then have failed: "exportVideo brokenImageRuntime [brokenImageScene] videoOptions
     = (Rejected (ImageLoadFailed 2), noResources\<lparr>audioCtxCreated := True\<rparr>)"
    by (simp add: exportVideo_def videoOptions_def ctx)
  from failed exportVideo_scenarioA show ?thesis by (simp add: noResources_def)
qed

subsection \<open>Empty output\<close>



end
